theory Spec2Isabelle
  imports Complex_Main
begin

section \<open>DAXM voxel: a shallow embedding of voxel.py\<close>

text \<open>
  The numpy arrays of \<^verbatim>\<open>DAXMvoxel\<close> hold float64 numbers. They are modelled over
  \<^typ>\<open>real\<close>: the model is the exact arithmetic that the floating-point code
  approximates, and rounding, \<^verbatim>\<open>inf\<close> and \<^verbatim>\<open>nan\<close> are outside it.

  Shapes follow the class docstring: a 3-vector is a triple, a 3x3 array is the triple of
  its rows (as a numpy literal lists them), and a 3xN array (\<^verbatim>\<open>scatter_vec\<close>,
  \<^verbatim>\<open>plane\<close>) is the list of its N columns; \<^verbatim>\<open>peak\<close> (2xN) is the list of its
  N columns, each a pair.
\<close>

subsection \<open>Vectors and 3x3 matrices\<close>

type_synonym vec3 = "real \<times> real \<times> real"
type_synonym mat3 = "vec3 \<times> vec3 \<times> vec3"

fun dotp :: "vec3 \<Rightarrow> vec3 \<Rightarrow> real" where
  "dotp (a, b, c) (x, y, z) = a * x + b * y + c * z"

fun vscale :: "real \<Rightarrow> vec3 \<Rightarrow> vec3" where
  "vscale k (x, y, z) = (k * x, k * y, k * z)"

fun vadd :: "vec3 \<Rightarrow> vec3 \<Rightarrow> vec3" where
  "vadd (a, b, c) (x, y, z) = (a + x, b + y, c + z)"

fun vsub :: "vec3 \<Rightarrow> vec3 \<Rightarrow> vec3" where
  "vsub (a, b, c) (x, y, z) = (a - x, b - y, c - z)"

text \<open>\<^verbatim>\<open>np.linalg.norm\<close> of one column: the Euclidean norm.\<close>

fun vnorm :: "vec3 \<Rightarrow> real" where
  "vnorm (x, y, z) = sqrt (x * x + y * y + z * z)"

text \<open>\<^verbatim>\<open>m.T\<close>\<close>

fun transpose3 :: "mat3 \<Rightarrow> mat3" where
  "transpose3 ((a, b, c), (d, e, f), (g, h, i)) = ((a, d, g), (b, e, h), (c, f, i))"

text \<open>\<^verbatim>\<open>np.dot(m, v)\<close> for a 3x3 array and a 3-vector.\<close>

fun mv :: "mat3 \<Rightarrow> vec3 \<Rightarrow> vec3" where
  "mv (r1, r2, r3) v = (dotp r1 v, dotp r2 v, dotp r3 v)"

text \<open>\<^verbatim>\<open>np.dot(m, n)\<close> for two 3x3 arrays: entry (i, k) is row i of m times column k of n.\<close>

fun mm :: "mat3 \<Rightarrow> mat3 \<Rightarrow> mat3" where
  "mm (r1, r2, r3) n =
     (case transpose3 n of (c1, c2, c3) \<Rightarrow>
        ((dotp r1 c1, dotp r1 c2, dotp r1 c3),
         (dotp r2 c1, dotp r2 c2, dotp r2 c3),
         (dotp r3 c1, dotp r3 c2, dotp r3 c3)))"

fun madd :: "mat3 \<Rightarrow> mat3 \<Rightarrow> mat3" where
  "madd (r1, r2, r3) (s1, s2, s3) = (vadd r1 s1, vadd r2 s2, vadd r3 s3)"

text \<open>\<^verbatim>\<open>np.eye(3)\<close>\<close>

definition eye3 :: mat3 where
  "eye3 = ((1, 0, 0), (0, 1, 0), (0, 0, 1))"

definition zeros33 :: mat3 where
  "zeros33 = ((0, 0, 0), (0, 0, 0), (0, 0, 0))"

text \<open>\<^verbatim>\<open>np.dot(m, cols)\<close> for a 3x3 array and a 3xN array: every column is multiplied.\<close>

definition mcols :: "mat3 \<Rightarrow> vec3 list \<Rightarrow> vec3 list" where
  "mcols m cols = map (mv m) cols"

subsection \<open>Exceptions\<close>

text \<open>
  The exceptions the modelled methods can raise: the bare \<^verbatim>\<open>Exception\<close> of
  \<^verbatim>\<open>toFrame\<close>, Python's \<^verbatim>\<open>NameError\<close>, \<^verbatim>\<open>KeyError\<close> and \<^verbatim>\<open>IndexError\<close>,
  numpy's \<^verbatim>\<open>ValueError\<close> (shapes not aligned, \<^verbatim>\<open>argmin\<close> of an empty sequence) and
  \<^verbatim>\<open>LinAlgError\<close> (singular matrix), and any exception raised inside the optimizer.
\<close>

datatype error = Exception | NameError | KeyError | IndexError | ValueError | LinAlgError
  | OptimizerFault

subsection \<open>The voxel\<close>

record voxel =
  name :: "string option"
  ref_frame :: string
  coords :: vec3
  pattern_image :: "string option"
  scatter_vec :: "vec3 list"
  plane :: "vec3 list"
  recip_base :: mat3
  peak :: "(real \<times> real) list"
  depth :: real
  lattice_constant :: "real list"

subsection \<open>The rotation table (lines 31-68)\<close>

definition theta_1 :: real where "theta_1 = - pi"

definition R_XHF2TSL :: mat3 where
  "R_XHF2TSL = ((1, 0, 0),
                (0, cos theta_1, - sin theta_1),
                (0, sin theta_1, cos theta_1))"

definition R_TSL2XHF :: mat3 where "R_TSL2XHF = transpose3 R_XHF2TSL"

definition theta_2 :: real where "theta_2 = - 0.25 * pi"

definition R_XHF2APS :: mat3 where
  "R_XHF2APS = ((1, 0, 0),
                (0, cos theta_2, - sin theta_2),
                (0, sin theta_2, cos theta_2))"

definition R_APS2XHF :: mat3 where "R_APS2XHF = transpose3 R_XHF2APS"

definition theta_3 :: real where "theta_3 = - 0.75 * pi"

definition R_APS2TSL :: mat3 where
  "R_APS2TSL = ((1, 0, 0),
                (0, cos theta_3, - sin theta_3),
                (0, sin theta_3, cos theta_3))"

definition R_TSL2APS :: mat3 where "R_TSL2APS = transpose3 R_APS2TSL"

definition R_TSL2TSL :: mat3 where "R_TSL2TSL = eye3"
definition R_APS2APS :: mat3 where "R_APS2APS = eye3"
definition R_XHF2XHF :: mat3 where "R_XHF2XHF = eye3"

type_synonym registry = "string \<rightharpoonup> (string \<rightharpoonup> mat3)"

text \<open>The class attribute \<^verbatim>\<open>DAXMvoxel.g_to_from\<close>, a dict of dicts.\<close>

definition g_to_from :: registry where
  "g_to_from =
     [''APS'' \<mapsto> [''APS'' \<mapsto> R_APS2APS, ''TSL'' \<mapsto> R_APS2TSL, ''XHF'' \<mapsto> R_APS2XHF],
      ''TSL'' \<mapsto> [''APS'' \<mapsto> R_TSL2APS, ''TSL'' \<mapsto> R_TSL2TSL, ''XHF'' \<mapsto> R_TSL2XHF],
      ''XHF'' \<mapsto> [''APS'' \<mapsto> R_XHF2APS, ''TSL'' \<mapsto> R_XHF2TSL, ''XHF'' \<mapsto> R_XHF2XHF]]"

subsection \<open>toFrame (lines 161-174)\<close>

text \<open>
  The method mutates \<^verbatim>\<open>self\<close>; the model returns the voxel after the call together
  with the exception that ended it, if any. The three assignments run in the source's
  order, each evaluating \<^verbatim>\<open>g_to_from[target][self.ref_frame]\<close> anew; the subscript
  raises \<^verbatim>\<open>KeyError\<close> when \<^verbatim>\<open>self.ref_frame\<close> is not a key. No line assigns
  \<^verbatim>\<open>self.ref_frame\<close>.

  The body names the table by the bare name \<^verbatim>\<open>g_to_from\<close>. The first argument of
  \<open>toFrame_with\<close> is what that name is bound to where the body runs: \<open>None\<close> when
  it is unbound, in which case evaluating it raises \<^verbatim>\<open>NameError\<close>.
\<close>

definition lookup_g :: "registry \<Rightarrow> string \<Rightarrow> string \<Rightarrow> error + mat3" where
  "lookup_g tbl target frm =
     (case tbl target of
        None \<Rightarrow> Inl KeyError
      | Some row \<Rightarrow> (case row frm of None \<Rightarrow> Inl KeyError | Some g \<Rightarrow> Inr g))"

definition toFrame_with ::
  "registry option \<Rightarrow> voxel \<Rightarrow> string option \<Rightarrow> voxel \<times> error option" where
  "toFrame_with scope self target =
     (case target of
        None \<Rightarrow> (self, None)
      | Some t \<Rightarrow>
          (case scope of
             None \<Rightarrow> (self, Some NameError)
           | Some tbl \<Rightarrow>
               if t \<notin> dom tbl then (self, Some Exception)
               else
                 (case lookup_g tbl t (ref_frame self) of
                    Inl e \<Rightarrow> (self, Some e)
                  | Inr g1 \<Rightarrow>
                      let self1 = self\<lparr>coords := mv g1 (coords self)\<rparr> in
                      (case lookup_g tbl t (ref_frame self1) of
                         Inl e \<Rightarrow> (self1, Some e)
                       | Inr g2 \<Rightarrow>
                           let self2 = self1\<lparr>scatter_vec := mcols g2 (scatter_vec self1)\<rparr> in
                           (case lookup_g tbl t (ref_frame self2) of
                              Inl e \<Rightarrow> (self2, Some e)
                            | Inr g3 \<Rightarrow>
                                (self2\<lparr>recip_base := mm g3 (recip_base self2)\<rparr>, None))))))"

text \<open>
  Python looks a bare name of a method body up in the function's local names, then in the
  module's globals, then in the builtins; the names bound in the class body are not
  searched. The module binds \<^verbatim>\<open>print_function\<close>, \<^verbatim>\<open>h5py\<close>, \<^verbatim>\<open>np\<close>,
  \<^verbatim>\<open>normalize\<close> and \<^verbatim>\<open>DAXMvoxel\<close> (lines 3-8), and \<^verbatim>\<open>g_to_from\<close> is bound only in
  the class body (line 52), so in \<^verbatim>\<open>toFrame\<close> the name is unbound.
\<close>

definition bare_g_to_from :: "registry option" where
  "bare_g_to_from = None"

definition toFrame :: "voxel \<Rightarrow> string option \<Rightarrow> voxel \<times> error option" where
  "toFrame self target = toFrame_with bare_g_to_from self target"

subsection \<open>normalize (daxmexplorer.vecmath)\<close>

fun vdiv :: "vec3 \<Rightarrow> real \<Rightarrow> vec3" where
  "vdiv (x, y, z) n = (x / n, y / n, z / n)"

text \<open>
  Modelled from the spec: \<^verbatim>\<open>normalize\<close> is imported from \<^verbatim>\<open>daxmexplorer.vecmath\<close>,
  which is not among the sources. The spec calls its result the unit-normalized form of a
  column: the column divided by its Euclidean norm. With \<^verbatim>\<open>axis=0\<close> it does so for
  every column of an array. (For a zero column numpy's division yields \<^verbatim>\<open>nan\<close>; the
  model has no such value, and no statement below relies on that case.)
\<close>

definition normalize_vec :: "vec3 \<Rightarrow> vec3" where
  "normalize_vec v = vdiv v (vnorm v)"

subsection \<open>scatter_vec0 (lines 152-159)\<close>

text \<open>
  \<^verbatim>\<open>np.where(np.absolute(np.linalg.norm(self.scatter_vec,axis=0) - 1) <= 1e-8)\<close>: the
  indices, in increasing order, of the measured columns recorded as unit vectors.
\<close>

definition where_unit :: "vec3 list \<Rightarrow> nat list" where
  "where_unit qs = filter (\<lambda>j. \<bar>vnorm (qs ! j) - 1\<bar> \<le> 1 / 10 ^ 8) [0..<length qs]"

text \<open>
  \<^verbatim>\<open>q0[:, idx] = vals\<close>: column \<open>idx ! k\<close> receives \<open>vals ! k\<close>. Reading
  \<^verbatim>\<open>q0[:, idx]\<close> raises \<^verbatim>\<open>IndexError\<close> when an index is not a column of \<open>q0\<close>.
\<close>

definition take_cols :: "vec3 list \<Rightarrow> nat list \<Rightarrow> error + vec3 list" where
  "take_cols q0 idx =
     (if list_ex (\<lambda>j. length q0 \<le> j) idx then Inl IndexError else Inr (map (nth q0) idx))"

definition assign_cols :: "vec3 list \<Rightarrow> nat list \<Rightarrow> vec3 list \<Rightarrow> vec3 list" where
  "assign_cols q0 idx vals = foldl (\<lambda>q (j, v). q[j := v]) q0 (zip idx vals)"

definition scatter_vec0 :: "voxel \<Rightarrow> bool \<Rightarrow> error + vec3 list" where
  "scatter_vec0 self match_measured =
     (let q0 = mcols (recip_base self) (plane self) in
      if match_measured then
        (let idx_unit_q = where_unit (scatter_vec self) in
         case take_cols q0 idx_unit_q of
           Inl e \<Rightarrow> Inl e
         | Inr cols \<Rightarrow> Inr (assign_cols q0 idx_unit_q (map normalize_vec cols)))
      else Inr q0)"

subsection \<open>deformation_gradientL2 (lines 176-191)\<close>

fun outer :: "vec3 \<Rightarrow> vec3 \<Rightarrow> mat3" where
  "outer (a, b, c) v = (vscale a v, vscale b v, vscale c v)"

text \<open>
  \<^verbatim>\<open>np.dot(p, q.T)\<close> for a 3xN array \<open>p\<close> and a 3xM array \<open>q\<close>: numpy raises
  \<^verbatim>\<open>ValueError\<close> (shapes not aligned) unless N = M; entry (i, k) of the product is the
  sum over the columns j of \<open>p[i][j] * q[k][j]\<close>, so the product is the sum of the outer
  products of corresponding columns.
\<close>

definition dot_T :: "vec3 list \<Rightarrow> vec3 list \<Rightarrow> error + mat3" where
  "dot_T p q =
     (if length p \<noteq> length q then Inl ValueError
      else Inr (foldr madd (map2 outer p q) zeros33))"

fun det3 :: "mat3 \<Rightarrow> real" where
  "det3 ((a, b, c), (d, e, f), (g, h, i)) =
     a * (e * i - f * h) - b * (d * i - f * g) + c * (d * h - e * g)"

fun adj3 :: "mat3 \<Rightarrow> mat3" where
  "adj3 ((a, b, c), (d, e, f), (g, h, i)) =
     ((e * i - f * h, c * h - b * i, b * f - c * e),
      (f * g - d * i, a * i - c * g, c * d - a * f),
      (d * h - e * g, b * g - a * h, a * e - b * d))"

fun mscale :: "real \<Rightarrow> mat3 \<Rightarrow> mat3" where
  "mscale k (r1, r2, r3) = (vscale k r1, vscale k r2, vscale k r3)"

text \<open>
  \<^verbatim>\<open>np.linalg.inv\<close> is numpy's: an LU factorisation with partial pivoting in float64,
  followed by substitution. On an invertible matrix it returns the inverse, written here by
  the adjugate (rounding is outside the model). It raises \<^verbatim>\<open>LinAlgError\<close> only when the
  factorisation meets a pivot that is exactly zero. On a singular matrix rounding can leave
  a tiny non-zero pivot instead, and then a matrix with huge entries is returned and
  nothing is raised. Which of the two happens on a singular matrix is decided by the
  rounding, so it is a parameter of the model: \<open>lu m\<close> is the outcome on the singular
  matrix \<open>m\<close>.
\<close>

type_synonym singular_outcome = "mat3 \<Rightarrow> error + mat3"

definition linalg_inv :: "singular_outcome \<Rightarrow> mat3 \<Rightarrow> error + mat3" where
  "linalg_inv lu m = (if det3 m = 0 then lu m else Inr (mscale (1 / det3 m) (adj3 m)))"

definition deformation_gradientL2 :: "singular_outcome \<Rightarrow> voxel \<Rightarrow> error + mat3" where
  "deformation_gradientL2 lu self =
     (case scatter_vec0 self True of
        Inl e \<Rightarrow> Inl e
      | Inr q0 \<Rightarrow>
          let q = scatter_vec self in
          (case dot_T q q0 of
             Inl e \<Rightarrow> Inl e
           | Inr A \<Rightarrow>
               (case dot_T q0 q0 of
                  Inl e \<Rightarrow> Inl e
                | Inr B \<Rightarrow>
                    (case linalg_inv lu A of
                       Inl e \<Rightarrow> Inl e
                     | Inr Ai \<Rightarrow> Inr (mm (transpose3 Ai) (transpose3 B))))))"

subsection \<open>deformation_gradient_opt (lines 193-252)\<close>

text \<open>\<^verbatim>\<open>x.reshape(3, 3)\<close>: row-major, \<^verbatim>\<open>ValueError\<close> unless there are nine entries.\<close>

fun reshape33 :: "real list \<Rightarrow> error + mat3" where
  "reshape33 [a, b, c, d, e, f, g, h, i] = Inr ((a, b, c), (d, e, f), (g, h, i))"
| "reshape33 _ = Inl ValueError"

definition constraint :: "real list \<Rightarrow> real \<Rightarrow> real" where
  "constraint constraint_f e = real (length constraint_f) * e - sum_list (map abs constraint_f)"

text \<open>
  The elementwise difference of two 3xN arrays under numpy's broadcasting: equal column
  counts, or one of the two a single column, otherwise \<^verbatim>\<open>ValueError\<close>.
\<close>

definition broadcast_sub :: "vec3 list \<Rightarrow> vec3 list \<Rightarrow> error + vec3 list" where
  "broadcast_sub p q =
     (if length p = length q then Inr (map2 vsub p q)
      else if length p = 1 then Inr (map (vsub (hd p)) q)
      else if length q = 1 then Inr (map (\<lambda>v. vsub v (hd q)) p)
      else Inl ValueError)"

text \<open>
  The objective handed to the optimizer. \<^verbatim>\<open>np.sum\<close> without an axis adds all entries,
  so the \<^verbatim>\<open>np.mean\<close> around it is the mean of one number. (\<^verbatim>\<open>objectiveIce\<close> and
  \<^verbatim>\<open>objectiveKratos\<close> are defined in the source and never called.)
\<close>

definition objectiveDante :: "real list \<Rightarrow> vec3 list \<Rightarrow> vec3 list \<Rightarrow> error + real" where
  "objectiveDante f vec0 vec =
     (case reshape33 f of
        Inl e \<Rightarrow> Inl e
      | Inr df \<Rightarrow>
          let estimate = mcols (madd eye3 df) vec0 in
          (case broadcast_sub (map (\<lambda>v. vdiv v (vnorm v)) vec)
                              (map (\<lambda>v. vdiv v (vnorm v)) estimate) of
             Inl e \<Rightarrow> Inl e
           | Inr d \<Rightarrow>
               let angdiff = sqrt (sum_list (map (\<lambda>v. dotp v v) d));
                   idx_full_q =
                     filter (\<lambda>j. \<bar>vnorm (vec ! j) - 1\<bar> > 1 / 10 ^ 10) [0..<length vec]
               in
               if list_ex (\<lambda>j. length estimate \<le> j) idx_full_q then Inl IndexError
               else
                 let lendiff = map (\<lambda>j. vnorm (estimate ! j) / vnorm (vec ! j)) idx_full_q
                 in Inr (angdiff + sqrt (sum_list (map (\<lambda>r. (ln r)\<^sup>2) lendiff)))))"

text \<open>
  \<^verbatim>\<open>scipy.optimize.minimize\<close> is scipy's and is a parameter of the model: called with
  the objective, the start vector and the constraint function (method COBYLA, tolerance
  and iteration cap as in the source), it either raises or returns an
  \<^verbatim>\<open>OptimizeResult\<close>, of which the fields \<^verbatim>\<open>x\<close>, \<^verbatim>\<open>success\<close> and \<^verbatim>\<open>fun\<close> are
  kept (the field names carry a prefix here).
\<close>

record OptimizeResult =
  res_x :: "real list"
  res_success :: bool
  res_fun :: real

type_synonym minimizer =
  "(real list \<Rightarrow> error + real) \<Rightarrow> real list \<Rightarrow> (real list \<Rightarrow> real) \<Rightarrow> error + OptimizeResult"

definition deformation_gradient_opt ::
  "singular_outcome \<Rightarrow> minimizer \<Rightarrow> voxel \<Rightarrow> real \<Rightarrow> error + mat3" where
  "deformation_gradient_opt lu minimize self eps =
     (case scatter_vec0 self False of
        Inl e \<Rightarrow> Inl e
      | Inr q0_opt \<Rightarrow>
          let q_opt = scatter_vec self in
          (case minimize (\<lambda>f. objectiveDante f q0_opt q_opt) (replicate 9 0)
                         (\<lambda>x. constraint x eps) of
             Inl e \<Rightarrow> Inl e
           | Inr rst_opt \<Rightarrow>
               (case reshape33 (res_x rst_opt) of
                  Inl e \<Rightarrow> Inl e
                | Inr d \<Rightarrow>
                    let fstar = madd eye3 d in
                    (case linalg_inv lu fstar of
                       Inl e \<Rightarrow> Inl e
                     | Inr fi \<Rightarrow> Inr (transpose3 fi)))))"

subsection \<open>pair_scattervec_plane (lines 254-271)\<close>

text \<open>
  \<^verbatim>\<open>np.argmin\<close>: the first index of the smallest entry; \<^verbatim>\<open>ValueError\<close> on an empty
  sequence.
\<close>

fun argmin_aux :: "nat \<Rightarrow> real \<Rightarrow> nat \<Rightarrow> real list \<Rightarrow> nat" where
  "argmin_aux bi bv i [] = bi"
| "argmin_aux bi bv i (y # ys) =
     (if y < bv then argmin_aux i y (Suc i) ys else argmin_aux bi bv (Suc i) ys)"

fun argmin :: "real list \<Rightarrow> error + nat" where
  "argmin [] = Inl ValueError"
| "argmin (y # ys) = Inr (argmin_aux 0 y 1 ys)"

text \<open>
  The loop over the plane columns. It fills the local arrays \<^verbatim>\<open>new_scatter_vec\<close> and
  \<^verbatim>\<open>new_peak\<close> position by position; \<^verbatim>\<open>self\<close> is assigned only after the loop, so
  an exception inside the loop leaves the voxel as it was. \<^verbatim>\<open>self.peak[:, idx]\<close>
  raises \<^verbatim>\<open>IndexError\<close> when \<^verbatim>\<open>peak\<close> has no column \<open>idx\<close>.
\<close>

fun pair_loop ::
  "voxel \<Rightarrow> vec3 list \<Rightarrow> vec3 list \<Rightarrow> error + (vec3 list \<times> (real \<times> real) list)" where
  "pair_loop self qs [] = Inr ([], [])"
| "pair_loop self qs (p # ps) =
     (let q0 = normalize_vec (mv (recip_base self) p);
          angular_diff = map (dotp q0) qs
      in case argmin angular_diff of
           Inl e \<Rightarrow> Inl e
         | Inr idx \<Rightarrow>
             if length (peak self) \<le> idx then Inl IndexError
             else
               (case pair_loop self qs ps of
                  Inl e \<Rightarrow> Inl e
                | Inr (sv, pk) \<Rightarrow> Inr (scatter_vec self ! idx # sv, peak self ! idx # pk)))"

definition pair_scattervec_plane :: "voxel \<Rightarrow> voxel \<times> error option" where
  "pair_scattervec_plane self =
     (let qs = map normalize_vec (scatter_vec self) in
      case pair_loop self qs (plane self) of
        Inl e \<Rightarrow> (self, Some e)
      | Inr (new_scatter_vec, new_peak) \<Rightarrow>
          (self\<lparr>scatter_vec := new_scatter_vec, peak := new_peak\<rparr>, None))"

subsection \<open>Example inputs\<close>

text \<open>A voxel recorded in the XHF frame.\<close>

definition vox_xhf :: voxel where
  "vox_xhf = \<lparr>name = Some ''xhf'', ref_frame = ''XHF'', coords = (0, 1, 0),
     pattern_image = None, scatter_vec = [(0, 0, 1)], plane = [(0, 0, 1)],
     recip_base = eye3, peak = [(1, 2)], depth = 0, lattice_constant = []\<rparr>"

text \<open>
  A reciprocal basis that is neither symmetric nor the identity; the first measured column
  has length 2 and the second is a unit vector.
\<close>

definition vox_skew :: voxel where
  "vox_skew = \<lparr>name = Some ''skew'', ref_frame = ''APS'', coords = (0, 0, 0),
     pattern_image = None, scatter_vec = [(0, 2, 0), (1, 0, 0)],
     plane = [(1, 1, 0), (2, 0, - 6)], recip_base = ((1, 2, 0), (0, 1, 0), (3, 0, 1)),
     peak = [(1, 2), (3, 4)], depth = 0, lattice_constant = []\<rparr>"

text \<open>
  The same measured columns with a single plane: the unit column has index 1, and there
  is no plane column of that index.
\<close>

definition vox_extra :: voxel where
  "vox_extra = \<lparr>name = Some ''extra'', ref_frame = ''APS'', coords = (0, 0, 0),
     pattern_image = None, scatter_vec = [(0, 2, 0), (1, 0, 0)],
     plane = [(1, 1, 0)], recip_base = ((1, 2, 0), (0, 1, 0), (3, 0, 1)),
     peak = [(1, 2), (3, 4)], depth = 0, lattice_constant = []\<rparr>"

text \<open>Three independent columns, none of unit length; the planes are not orthogonal.\<close>

definition vox_sheared :: voxel where
  "vox_sheared = \<lparr>name = Some ''sheared'', ref_frame = ''APS'', coords = (0, 0, 0),
     pattern_image = None, scatter_vec = [(2, 0, 0), (0, 2, 0), (0, 0, 2)],
     plane = [(1, 0, 0), (1, 1, 0), (0, 0, 1)], recip_base = eye3,
     peak = [(1, 2), (3, 4), (5, 6)], depth = 0, lattice_constant = []\<rparr>"

text \<open>Only two columns.\<close>

definition vox_two :: voxel where
  "vox_two = \<lparr>name = Some ''two'', ref_frame = ''APS'', coords = (0, 0, 0),
     pattern_image = None, scatter_vec = [(2, 0, 0), (0, 2, 0)],
     plane = [(1, 0, 0), (0, 1, 0)], recip_base = eye3,
     peak = [(1, 2), (3, 4)], depth = 0, lattice_constant = []\<rparr>"

text \<open>
  Three columns whose plane directions are linearly dependent (the third is three times
  the first plus twice the second). The matrix \<open>q . q0\<^sup>t\<close> of this voxel is
  \<open>A_dependent\<close>, which is singular.
\<close>

definition vox_dependent :: voxel where
  "vox_dependent = \<lparr>name = Some ''dependent'', ref_frame = ''APS'', coords = (0, 0, 0),
     pattern_image = None, scatter_vec = [(2, 0, 0), (0, 2, 0), (0, 0, 2)],
     plane = [(1, 0, 1), (0, 1, 1), (3, 2, 5)], recip_base = eye3,
     peak = [(1, 2), (3, 4), (5, 6)], depth = 0, lattice_constant = []\<rparr>"

definition A_dependent :: mat3 where
  "A_dependent = ((2, 0, 2), (0, 2, 2), (6, 4, 10))"

text \<open>
  Two outcomes of \<^verbatim>\<open>np.linalg.inv\<close> on singular matrices. \<open>zero_pivot\<close>: the
  factorisation meets an exactly zero pivot and \<^verbatim>\<open>LinAlgError\<close> is raised.
  \<open>tiny_pivot\<close>: what float64 elimination does on \<open>A_dependent\<close>. The row with 6 is
  brought to the top, the multiplier 1/3 is not a float64 number, and the last pivot comes
  out as \<open>2\<^sup>-\<^sup>5\<^sup>2\<close> instead of 0; no pivot is exactly zero, nothing is raised, and
  substitution yields \<open>rounded_inverse\<close>, with entries of the order of \<open>10\<^sup>1\<^sup>5\<close>.
\<close>

definition zero_pivot :: singular_outcome where
  "zero_pivot m = Inl LinAlgError"

definition rounded_inverse :: mat3 where
  "rounded_inverse =
     ((- 4503599627370496, - 6004799503160661 / 2, 6004799503160661 / 4),
      (- 4503599627370496, - 3002399751580330, 6004799503160661 / 4),
      (4503599627370496, 6004799503160661 / 2, - 6004799503160661 / 4))"

definition tiny_pivot :: singular_outcome where
  "tiny_pivot m = (if m = A_dependent then Inr rounded_inverse else Inl LinAlgError)"

text \<open>
  One plane along x; the first measured vector is parallel to it, the second is opposite.
\<close>

definition vox_pair :: voxel where
  "vox_pair = \<lparr>name = Some ''pair'', ref_frame = ''APS'', coords = (0, 0, 0),
     pattern_image = None, scatter_vec = [(1, 0, 0), (- 1, 0, 0)],
     plane = [(1, 0, 0)], recip_base = eye3,
     peak = [(10, 20), (30, 40)], depth = 0, lattice_constant = []\<rparr>"

text \<open>
  Optimizers for the examples: one that stops at the start vector and reports failure, one
  that raises, and the wrapper that overwrites the \<^verbatim>\<open>success\<close> flag of whatever an
  optimizer returns.
\<close>

definition unconverged :: OptimizeResult where
  "unconverged = \<lparr>res_x = [0, 0, 0, 0, 0, 0, 0, 0, 0], res_success = False, res_fun = 1\<rparr>"

definition minimize_unconverged :: minimizer where
  "minimize_unconverged obj x0 c = Inr unconverged"

definition minimize_faulty :: minimizer where
  "minimize_faulty obj x0 c = Inl OptimizerFault"

definition with_success :: "bool \<Rightarrow> minimizer \<Rightarrow> minimizer" where
  "with_success b minimize obj x0 c =
     (case minimize obj x0 c of Inl e \<Rightarrow> Inl e | Inr r \<Rightarrow> Inr (r\<lparr>res_success := b\<rparr>))"

section \<open>Linear algebra of the model\<close>

lemma mv_eye3: "mv eye3 v = v"
  by (cases v) (simp add: eye3_def)

lemma mm_eye3: "mm eye3 m = m"
  by (cases "(m)" rule: transpose3.cases) (simp add: eye3_def)

lemma mcols_eye3: "mcols eye3 cols = cols"
  by (simp add: mcols_def mv_eye3 map_idI)

lemma transpose3_mm: "transpose3 (mm a b) = mm (transpose3 b) (transpose3 a)"
  by (cases "(a)" rule: transpose3.cases; cases "(b)" rule: transpose3.cases)
     (simp add: mult.commute)

lemma transpose3_twice: "transpose3 (transpose3 m) = m"
  by (cases "(m)" rule: transpose3.cases) simp

lemma adj3_left: "mm (adj3 m) m = mscale (det3 m) eye3"
  by (cases "(m)" rule: transpose3.cases) (simp add: eye3_def algebra_simps)

lemma adj3_right: "mm m (adj3 m) = mscale (det3 m) eye3"
  by (cases "(m)" rule: transpose3.cases) (simp add: eye3_def algebra_simps)

lemma mm_mscale_left: "mm (mscale k a) b = mscale k (mm a b)"
  by (cases "(a)" rule: transpose3.cases; cases "(b)" rule: transpose3.cases)
     (simp add: algebra_simps)

lemma mm_mscale_right: "mm a (mscale k b) = mscale k (mm a b)"
  by (cases "(a)" rule: transpose3.cases; cases "(b)" rule: transpose3.cases)
     (simp add: algebra_simps)

lemma mscale_mscale: "mscale k (mscale l m) = mscale (k * l) m"
  by (cases "(m)" rule: transpose3.cases) (simp add: algebra_simps)

lemma mscale_one: "mscale 1 m = m"
  by (cases "(m)" rule: transpose3.cases) simp

text \<open>On a matrix of non-zero determinant \<open>linalg_inv\<close> returns a two-sided inverse.\<close>

lemma linalg_inv_left:
  "det3 m \<noteq> 0 \<Longrightarrow> linalg_inv lu m = Inr mi \<Longrightarrow> mm mi m = eye3"
  by (auto simp: linalg_inv_def mm_mscale_left adj3_left mscale_mscale mscale_one)

lemma linalg_inv_right:
  "det3 m \<noteq> 0 \<Longrightarrow> linalg_inv lu m = Inr mi \<Longrightarrow> mm m mi = eye3"
  by (auto simp: linalg_inv_def mm_mscale_right adj3_right mscale_mscale mscale_one)

lemma linalg_inv_nonsingular:
  "det3 m \<noteq> 0 \<Longrightarrow> linalg_inv lu m = Inr (mscale (1 / det3 m) (adj3 m))"
  by (simp add: linalg_inv_def)

lemma linalg_inv_singular: "det3 m = 0 \<Longrightarrow> linalg_inv lu m = lu m"
  by (simp add: linalg_inv_def)

lemma dot_T_self: "dot_T q q = Inr (foldr madd (map2 outer q q) zeros33)"
  by (simp add: dot_T_def)

text \<open>A sum of at most two outer products has determinant zero.\<close>

lemma det3_zeros33: "det3 zeros33 = 0"
  by (simp add: zeros33_def)

lemma det3_outer1: "det3 (madd (outer u v) zeros33) = 0"
  by (cases u; cases v) (simp add: zeros33_def)

lemma det3_outer2: "det3 (madd (outer u1 v1) (madd (outer u2 v2) zeros33)) = 0"
  by (cases u1; cases v1; cases u2; cases v2) (simp add: zeros33_def algebra_simps)

lemma short_list_cases:
  assumes "length p < 3"
  obtains "p = []" | u where "p = [u]" | u1 u2 where "p = [u1, u2]"
proof (cases p)
  case Nil
  then show ?thesis using that by simp
next
  case (Cons a p')
  note p = this
  show ?thesis
  proof (cases p')
    case Nil
    then show ?thesis using that p by simp
  next
    case (Cons b p'')
    then have "p'' = []" using assms p by simp
    then show ?thesis using that p Cons by simp
  qed
qed

lemma det3_outer_sum_short:
  assumes "length p = length q" and "length p < 3"
  shows "det3 (foldr madd (map2 outer p q) zeros33) = 0"
proof -
  from assms(2) show ?thesis
  proof (rule short_list_cases)
    assume "p = []"
    then show ?thesis by (simp add: det3_zeros33)
  next
    fix u assume p: "p = [u]"
    with assms(1) obtain v where "q = [v]"
      by (cases q) auto
    with p show ?thesis by (simp add: det3_outer1)
  next
    fix u1 u2 assume p: "p = [u1, u2]"
    with assms(1) obtain v1 v2 where "q = [v1, v2]"
      by (cases q; cases "tl q") auto
    with p show ?thesis by (simp add: det3_outer2)
  qed
qed

section \<open>Frame conversion\<close>

lemma dom_g_to_from: "dom g_to_from = {''APS'', ''TSL'', ''XHF''}"
  by (auto simp: g_to_from_def)

lemma lookup_g_own_frame:
  "f \<in> {''APS'', ''TSL'', ''XHF''} \<Longrightarrow> lookup_g g_to_from f f = Inr eye3"
  by (auto simp: lookup_g_def g_to_from_def R_APS2APS_def R_TSL2TSL_def R_XHF2XHF_def)

lemma R_TSL2XHF_value: "R_TSL2XHF = ((1, 0, 0), (0, - 1, 0), (0, 0, - 1))"
  by (simp add: R_TSL2XHF_def R_XHF2TSL_def theta_1_def)

lemma lookup_g_TSL_XHF:
  "lookup_g g_to_from ''TSL'' ''XHF'' = Inr ((1, 0, 0), (0, - 1, 0), (0, 0, - 1))"
  by (simp add: lookup_g_def g_to_from_def R_TSL2XHF_value)

text \<open>
  With the table bound to the name, a registered target and a registered current frame,
  the three arrays are multiplied from the left by \<open>g_to_from[target][ref_frame]\<close> and
  nothing else changes.
\<close>

lemma toFrame_with_table_converts:
  assumes "lookup_g g_to_from t (ref_frame self) = Inr g" and "t \<in> dom g_to_from"
  shows "toFrame_with (Some g_to_from) self (Some t) =
           (self\<lparr>coords := mv g (coords self),
                  scatter_vec := mcols g (scatter_vec self),
                  recip_base := mm g (recip_base self)\<rparr>, None)"
  using assms by (simp add: toFrame_with_def)

lemma toFrame_with_table_own_frame:
  assumes "ref_frame self \<in> {''APS'', ''TSL'', ''XHF''}"
  shows "toFrame_with (Some g_to_from) self (Some (ref_frame self)) = (self, None)"
proof -
  have "lookup_g g_to_from (ref_frame self) (ref_frame self) = Inr eye3"
    using assms by (rule lookup_g_own_frame)
  moreover have "ref_frame self \<in> dom g_to_from"
    using assms by (simp only: dom_g_to_from)
  ultimately show ?thesis
    by (simp add: toFrame_with_table_converts mv_eye3 mm_eye3 mcols_eye3)
qed

lemma toFrame_with_table_TSL_from_XHF:
  "toFrame_with (Some g_to_from) vox_xhf (Some ''TSL'') =
     (vox_xhf\<lparr>coords := (0, - 1, 0), scatter_vec := [(0, 0, - 1)],
              recip_base := ((1, 0, 0), (0, - 1, 0), (0, 0, - 1))\<rparr>, None)"
proof -
  have "lookup_g g_to_from ''TSL'' (ref_frame vox_xhf) =
          Inr ((1, 0, 0), (0, - 1, 0), (0, 0, - 1))"
    by (simp add: vox_xhf_def lookup_g_TSL_XHF)
  moreover have "''TSL'' \<in> dom g_to_from"
    by (simp add: dom_g_to_from)
  ultimately have "toFrame_with (Some g_to_from) vox_xhf (Some ''TSL'') =
      (vox_xhf\<lparr>coords := mv ((1, 0, 0), (0, - 1, 0), (0, 0, - 1)) (coords vox_xhf),
               scatter_vec := mcols ((1, 0, 0), (0, - 1, 0), (0, 0, - 1)) (scatter_vec vox_xhf),
               recip_base := mm ((1, 0, 0), (0, - 1, 0), (0, 0, - 1)) (recip_base vox_xhf)\<rparr>,
       None)"
    by (rule toFrame_with_table_converts)
  then show ?thesis
    by (simp add: vox_xhf_def mcols_def eye3_def)
qed

text \<open>
  C10. Called without a target (\<^verbatim>\<open>target=None\<close>), \<^verbatim>\<open>toFrame\<close> returns at once: no
  exception is raised and every field of the voxel is as before, whatever the name
  \<^verbatim>\<open>g_to_from\<close> is bound to.
\<close>

theorem toFrame_no_target:
  "toFrame self None = (self, None) \<and> toFrame_with scope self None = (self, None)"
  by (simp add: toFrame_def toFrame_with_def)

text \<open>
  C8 (the code departs from the claim). Asked to convert a voxel to its own frame,
  \<^verbatim>\<open>toFrame\<close> as written raises \<^verbatim>\<open>NameError\<close> at line 164, because the bare name
  \<^verbatim>\<open>g_to_from\<close> is unbound in the method body; the voxel is unchanged, but the call
  fails. (With the table bound, \<open>toFrame_with_table_own_frame\<close> shows the no-op the
  claim describes.)
\<close>

theorem toFrame_own_frame_raises:
  "toFrame self (Some (ref_frame self)) = (self, Some NameError)"
  by (simp add: toFrame_def toFrame_with_def bare_g_to_from_def)

text \<open>
  With the table bound to the name, the membership test of line 164 rejects a target that
  is not a key with the bare \<^verbatim>\<open>Exception\<close>, before any assignment.
\<close>

lemma toFrame_with_table_unknown_target:
  assumes "t \<notin> {''APS'', ''TSL'', ''XHF''}"
  shows "toFrame_with (Some g_to_from) self (Some t) = (self, Some Exception)"
proof -
  from assms have "t \<notin> dom g_to_from"
    unfolding dom_g_to_from .
  then show ?thesis
    by (simp add: toFrame_with_def)
qed

text \<open>
  C6 (the code departs from the claim). Asked for the unregistered frame \<open>LAB\<close>,
  \<^verbatim>\<open>toFrame\<close> as written leaves the voxel unchanged but does not reject the tag: it
  raises the \<^verbatim>\<open>NameError\<close> of the unbound name \<^verbatim>\<open>g_to_from\<close>, not the
  \<^verbatim>\<open>Exception\<close> that line 164 raises for an unknown frame, and the outcome is the same
  as for the registered frame \<open>APS\<close>. The membership test that tells the two apart
  never runs.
\<close>

theorem toFrame_unknown_target_name_error:
  "toFrame self (Some ''LAB'') = (self, Some NameError) \<and>
   toFrame self (Some ''LAB'') \<noteq> (self, Some Exception) \<and>
   toFrame self (Some ''LAB'') = toFrame self (Some ''APS'')"
  by (simp add: toFrame_def toFrame_with_def bare_g_to_from_def)

text \<open>
  C3 (the code departs from the claim). For a target given as a tag, \<^verbatim>\<open>toFrame\<close> as
  written raises \<^verbatim>\<open>NameError\<close> and converts nothing; and whatever the name
  \<^verbatim>\<open>g_to_from\<close> is bound to and whatever the target, the field \<^verbatim>\<open>ref_frame\<close> after
  the call is the one before it: no path sets it to the target.
\<close>

theorem toFrame_keeps_ref_frame:
  "toFrame self (Some t) = (self, Some NameError) \<and>
   ref_frame (fst (toFrame_with scope self target)) = ref_frame self"
proof
  show "toFrame self (Some t) = (self, Some NameError)"
    by (simp add: toFrame_def toFrame_with_def bare_g_to_from_def)
next
  show "ref_frame (fst (toFrame_with scope self target)) = ref_frame self"
    by (simp add: toFrame_with_def Let_def split: option.splits sum.splits)
qed

text \<open>
  C5 (the code departs from the claim). Converting the XHF voxel \<open>vox_xhf\<close> to TSL and
  back to its original frame does not restore it. As written the first call already
  raises \<^verbatim>\<open>NameError\<close>. With the table bound to the name, the first call turns the
  coordinates \<open>(0, 1, 0)\<close> into \<open>(0, -1, 0)\<close> and leaves \<^verbatim>\<open>ref_frame\<close> at XHF, so the
  call back to XHF multiplies by the identity and the coordinates stay \<open>(0, -1, 0)\<close>.
\<close>

theorem toFrame_round_trip_not_restored:
  "toFrame vox_xhf (Some ''TSL'') = (vox_xhf, Some NameError) \<and>
   coords vox_xhf = (0, 1, 0) \<and>
   coords (fst (toFrame_with (Some g_to_from)
                  (fst (toFrame_with (Some g_to_from) vox_xhf (Some ''TSL'')))
                  (Some (ref_frame vox_xhf)))) = (0, - 1, 0)"
proof (intro conjI)
  show "toFrame vox_xhf (Some ''TSL'') = (vox_xhf, Some NameError)"
    by (simp add: toFrame_def toFrame_with_def bare_g_to_from_def)
next
  show "coords vox_xhf = (0, 1, 0)"
    by (simp add: vox_xhf_def)
next
  let ?v1 = "vox_xhf\<lparr>coords := (0, - 1, 0), scatter_vec := [(0, 0, - 1)],
              recip_base := ((1, 0, 0), (0, - 1, 0), (0, 0, - 1))\<rparr>"
  have r: "ref_frame ?v1 = ref_frame vox_xhf"
    by simp
  have "ref_frame ?v1 \<in> {''APS'', ''TSL'', ''XHF''}"
    by (simp add: vox_xhf_def)
  then have "toFrame_with (Some g_to_from) ?v1 (Some (ref_frame ?v1)) = (?v1, None)"
    by (rule toFrame_with_table_own_frame)
  then have "toFrame_with (Some g_to_from) ?v1 (Some (ref_frame vox_xhf)) = (?v1, None)"
    by (simp only: r)
  then show "coords (fst (toFrame_with (Some g_to_from)
                  (fst (toFrame_with (Some g_to_from) vox_xhf (Some ''TSL'')))
                  (Some (ref_frame vox_xhf)))) = (0, - 1, 0)"
    by (simp add: toFrame_with_table_TSL_from_XHF)
qed

section \<open>Strain-free scattering vectors\<close>

lemma set_where_unit:
  "set (where_unit qs) = {j. j < length qs \<and> \<bar>vnorm (qs ! j) - 1\<bar> \<le> 1 / 10 ^ 8}"
  by (auto simp: where_unit_def)

lemma assign_fold_length:
  "length (foldl (\<lambda>q (j, v). q[j := v]) q jvs) = length q"
  by (induction jvs arbitrary: q) (auto split: prod.splits)

lemma assign_fold_nth:
  "i < length q \<Longrightarrow>
   foldl (\<lambda>q (j, v). q[j := v]) q (zip idx (map g idx)) ! i =
     (if i \<in> set idx then g i else q ! i)"
proof (induction idx arbitrary: q)
  case Nil
  then show ?case by simp
next
  case (Cons j idx)
  then show ?case by (simp add: nth_list_update)
qed

lemma assign_cols_length: "length (assign_cols q0 idx vals) = length q0"
  by (simp add: assign_cols_def assign_fold_length)

lemma assign_cols_nth:
  "i < length q0 \<Longrightarrow>
   assign_cols q0 idx (map f (map (nth q0) idx)) ! i =
     (if i \<in> set idx then f (q0 ! i) else q0 ! i)"
  using assign_fold_nth [of i q0 idx "\<lambda>j. f (q0 ! j)"]
  by (simp add: assign_cols_def comp_def)

lemma take_cols_Inr:
  "\<forall>j\<in>set idx. j < length q0 \<Longrightarrow> take_cols q0 idx = Inr (map (nth q0) idx)"
  by (auto simp: take_cols_def list_ex_iff)

lemma take_cols_Inl:
  "\<exists>j\<in>set idx. length q0 \<le> j \<Longrightarrow> take_cols q0 idx = Inl IndexError"
  by (auto simp: take_cols_def list_ex_iff)

lemma scatter_vec0_in_range:
  assumes "\<forall>j\<in>set (where_unit (scatter_vec self)). j < length (plane self)"
  shows "scatter_vec0 self True =
           Inr (assign_cols (mcols (recip_base self) (plane self))
                  (where_unit (scatter_vec self))
                  (map normalize_vec (map (nth (mcols (recip_base self) (plane self)))
                     (where_unit (scatter_vec self)))))"
proof -
  have "\<forall>j\<in>set (where_unit (scatter_vec self)). j < length (mcols (recip_base self) (plane self))"
    using assms by (simp add: mcols_def)
  then show ?thesis
    by (simp add: scatter_vec0_def take_cols_Inr Let_def)
qed

lemma scatter_vec0_out_of_range:
  assumes "\<exists>j\<in>set (where_unit (scatter_vec self)). length (plane self) \<le> j"
  shows "scatter_vec0 self True = Inl IndexError"
proof -
  have "\<exists>j\<in>set (where_unit (scatter_vec self)). length (mcols (recip_base self) (plane self)) \<le> j"
    using assms by (simp add: mcols_def)
  then show ?thesis
    by (simp add: scatter_vec0_def take_cols_Inl Let_def)
qed

lemma scatter_vec0_matched:
  assumes "length (scatter_vec self) \<le> length (plane self)"
  shows "scatter_vec0 self True =
           Inr (assign_cols (mcols (recip_base self) (plane self))
                  (where_unit (scatter_vec self))
                  (map normalize_vec (map (nth (mcols (recip_base self) (plane self)))
                     (where_unit (scatter_vec self)))))"
  using assms by (intro scatter_vec0_in_range) (auto simp: set_where_unit)

text \<open>
  C7 (as amended). Write the reciprocal basis by its entries. Without
  \<^verbatim>\<open>match_measured\<close> the operation returns, for every plane column, the product of the
  basis with that column. With \<^verbatim>\<open>match_measured\<close> it raises \<^verbatim>\<open>IndexError\<close> when some
  measured column whose Euclidean norm is within \<open>1e-8\<close> of 1 has an index that is not a
  plane column; otherwise it returns one column per plane: the product divided by its
  Euclidean norm where the measured column of the same index exists and has norm within
  \<open>1e-8\<close> of 1, and the product itself everywhere else.
\<close>

theorem scatter_vec0_columns:
  assumes rb: "recip_base self = ((a, b, c), (d, e, f), (g, h, k))"
  shows
    "scatter_vec0 self False =
       Inr (map (\<lambda>(x, y, z). (a * x + b * y + c * z, d * x + e * y + f * z, g * x + h * y + k * z))
              (plane self)) \<and>
     (if \<exists>j<length (scatter_vec self). length (plane self) \<le> j \<and>
            (case scatter_vec self ! j of
               (u, v, w) \<Rightarrow> \<bar>sqrt (u * u + v * v + w * w) - 1\<bar> \<le> 1 / 10 ^ 8)
      then scatter_vec0 self True = Inl IndexError
      else scatter_vec0 self True =
             Inr (map (\<lambda>i. case plane self ! i of
                         (x, y, z) \<Rightarrow>
                           let p1 = a * x + b * y + c * z;
                               p2 = d * x + e * y + f * z;
                               p3 = g * x + h * y + k * z;
                               n = sqrt (p1 * p1 + p2 * p2 + p3 * p3)
                           in if i < length (scatter_vec self) \<and>
                                 (case scatter_vec self ! i of
                                    (u, v, w) \<Rightarrow> \<bar>sqrt (u * u + v * v + w * w) - 1\<bar> \<le> 1 / 10 ^ 8)
                              then (p1 / n, p2 / n, p3 / n)
                              else (p1, p2, p3))
                    [0..<length (plane self)]))"
proof (intro conjI)
  have mv_rb: "mv (recip_base self) p =
      (case p of (x, y, z) \<Rightarrow> (a * x + b * y + c * z, d * x + e * y + f * z, g * x + h * y + k * z))"
    for p by (cases p) (simp add: rb)
  show "scatter_vec0 self False =
       Inr (map (\<lambda>(x, y, z). (a * x + b * y + c * z, d * x + e * y + f * z, g * x + h * y + k * z))
              (plane self))"
    by (simp add: scatter_vec0_def mcols_def mv_rb cong: map_cong)
  have unit_iff: "(\<bar>vnorm q - 1\<bar> \<le> 1 / 10 ^ 8) =
      (case q of (u, v, w) \<Rightarrow> \<bar>sqrt (u * u + v * v + w * w) - 1\<bar> \<le> 1 / 10 ^ 8)" for q
    by (cases q) simp
  let ?q = "mcols (recip_base self) (plane self)"
  let ?idx = "where_unit (scatter_vec self)"
  let ?r = "assign_cols ?q ?idx (map normalize_vec (map (nth ?q) ?idx))"
  let ?out = "\<exists>j<length (scatter_vec self). length (plane self) \<le> j \<and>
            (case scatter_vec self ! j of
               (u, v, w) \<Rightarrow> \<bar>sqrt (u * u + v * v + w * w) - 1\<bar> \<le> 1 / 10 ^ 8)"
  let ?col = "\<lambda>i. case plane self ! i of
                         (x, y, z) \<Rightarrow>
                           let p1 = a * x + b * y + c * z;
                               p2 = d * x + e * y + f * z;
                               p3 = g * x + h * y + k * z;
                               n = sqrt (p1 * p1 + p2 * p2 + p3 * p3)
                           in if i < length (scatter_vec self) \<and>
                                 (case scatter_vec self ! i of
                                    (u, v, w) \<Rightarrow> \<bar>sqrt (u * u + v * v + w * w) - 1\<bar> \<le> 1 / 10 ^ 8)
                              then (p1 / n, p2 / n, p3 / n)
                              else (p1, p2, p3)"
  have out_iff: "?out = (\<exists>j\<in>set ?idx. length (plane self) \<le> j)"
    by (auto simp: set_where_unit unit_iff)
  show "if ?out then scatter_vec0 self True = Inl IndexError
        else scatter_vec0 self True = Inr (map ?col [0..<length (plane self)])"
  proof (cases ?out)
    case True
    then have "scatter_vec0 self True = Inl IndexError"
      unfolding out_iff by (rule scatter_vec0_out_of_range)
    with True show ?thesis by (simp only: if_True)
  next
    case False
    then have "\<forall>j\<in>set ?idx. j < length (plane self)"
      unfolding out_iff by (auto simp: not_le)
    then have r: "scatter_vec0 self True = Inr ?r"
      by (rule scatter_vec0_in_range)
    have len: "length ?q = length (plane self)"
      by (simp add: mcols_def)
    have "?r = map ?col [0..<length (plane self)]"
    proof (rule nth_equalityI)
      show "length ?r = length (map ?col [0..<length (plane self)])"
        by (simp add: assign_cols_length len)
    next
      fix i assume "i < length ?r"
      then have i: "i < length (plane self)"
        by (simp add: assign_cols_length len)
      then have "i < length ?q" by (simp add: len)
      then have 1: "?r ! i = (if i \<in> set ?idx then normalize_vec (?q ! i) else ?q ! i)"
        by (rule assign_cols_nth)
      have 2: "?q ! i = mv (recip_base self) (plane self ! i)"
        using i by (simp add: mcols_def)
      obtain x y z where p: "plane self ! i = (x, y, z)"
        by (cases "plane self ! i")
      have 3: "(i \<in> set ?idx) = (i < length (scatter_vec self) \<and>
            (case scatter_vec self ! i of
               (u, v, w) \<Rightarrow> \<bar>sqrt (u * u + v * v + w * w) - 1\<bar> \<le> 1 / 10 ^ 8))"
        by (cases "scatter_vec self ! i") (simp add: set_where_unit)
      let ?P1 = "a * x + b * y + c * z" and ?P2 = "d * x + e * y + f * z"
        and ?P3 = "g * x + h * y + k * z"
      let ?N = "sqrt (?P1 * ?P1 + ?P2 * ?P2 + ?P3 * ?P3)"
      let ?C = "i < length (scatter_vec self) \<and>
            (case scatter_vec self ! i of
               (u, v, w) \<Rightarrow> \<bar>sqrt (u * u + v * v + w * w) - 1\<bar> \<le> 1 / 10 ^ 8)"
      have "mv (recip_base self) (plane self ! i) = (?P1, ?P2, ?P3)"
        by (simp add: p rb)
      then have q_i: "?q ! i = (?P1, ?P2, ?P3)"
        by (simp only: 2)
      have nq_i: "normalize_vec (?P1, ?P2, ?P3) = (?P1 / ?N, ?P2 / ?N, ?P3 / ?N)"
        by (simp add: normalize_vec_def)
      have rhs: "map ?col [0..<length (plane self)] ! i =
                   (if ?C then (?P1 / ?N, ?P2 / ?N, ?P3 / ?N) else (?P1, ?P2, ?P3))"
        using i by (simp add: p Let_def)
      show "?r ! i = map ?col [0..<length (plane self)] ! i"
        by (simp only: rhs 1 3 q_i nq_i)
    qed
    with r False show ?thesis by (simp only: if_False)
  qed
qed


theorem scatter_vec0_columns_witness:
  "recip_base vox_skew = ((1, 2, 0), (0, 1, 0), (3, 0, 1)) \<and>
   scatter_vec0 vox_skew False = Inr [(3, 1, 3), (2, 0, 0)] \<and>
   scatter_vec0 vox_skew True = Inr [(3, 1, 3), (1, 0, 0)] \<and>
   recip_base vox_extra = ((1, 2, 0), (0, 1, 0), (3, 0, 1)) \<and>
   scatter_vec0 vox_extra True = Inl IndexError"
proof -
  have rb: "recip_base vox_skew = ((1, 2, 0), (0, 1, 0), (3, 0, 1))"
    by (simp add: vox_skew_def)
  have sv: "scatter_vec vox_skew = [(0, 2, 0), (1, 0, 0)]"
    and pl: "plane vox_skew = [(1, 1, 0), (2, 0, - 6)]"
    by (simp_all add: vox_skew_def)
  have two: "[0..<2] = [0, 1]"
    by (simp add: upt_rec)
  have inside: "\<not> (\<exists>j<length (scatter_vec vox_skew). length (plane vox_skew) \<le> j \<and>
            (case scatter_vec vox_skew ! j of
               (u, v, w) \<Rightarrow> \<bar>sqrt (u * u + v * v + w * w) - 1\<bar> \<le> 1 / 10 ^ 8))"
    by (simp add: sv pl)
  from scatter_vec0_columns [OF rb]
  have "scatter_vec0 vox_skew False = Inr [(3, 1, 3), (2, 0, 0)]"
    by (simp add: pl)
  moreover from scatter_vec0_columns [OF rb] inside
  have "scatter_vec0 vox_skew True = Inr [(3, 1, 3), (1, 0, 0)]"
    by (simp add: sv pl two)
  moreover have rb': "recip_base vox_extra = ((1, 2, 0), (0, 1, 0), (3, 0, 1))"
    by (simp add: vox_extra_def)
  moreover have "\<exists>j<length (scatter_vec vox_extra). length (plane vox_extra) \<le> j \<and>
            (case scatter_vec vox_extra ! j of
               (u, v, w) \<Rightarrow> \<bar>sqrt (u * u + v * v + w * w) - 1\<bar> \<le> 1 / 10 ^ 8)"
    by (rule exI [of _ 1]) (simp add: vox_extra_def)
  with scatter_vec0_columns [OF rb']
  have "scatter_vec0 vox_extra True = Inl IndexError"
    by (simp only: if_True)
  ultimately show ?thesis using rb by blast
qed

text \<open>
  C7 as stated fails: \<open>vox_extra\<close> has one plane column and two measured columns, the
  second of unit length; the operation returns no matrix but raises \<^verbatim>\<open>IndexError\<close>.
\<close>

theorem scatter_vec0_unit_column_out_of_range:
  "length (plane vox_extra) = 1 \<and> scatter_vec vox_extra ! 1 = (1, 0, 0) \<and>
   scatter_vec0 vox_extra True = Inl IndexError"
  by (simp add: scatter_vec0_def vox_extra_def where_unit_def upt_rec mcols_def take_cols_def)

section \<open>Closed-form deformation gradient\<close>

lemma sheared_q0: "scatter_vec0 vox_sheared True = Inr [(1, 0, 0), (1, 1, 0), (0, 0, 1)]"
  by (simp add: scatter_vec0_def vox_sheared_def where_unit_def upt_rec mcols_def eye3_def
      take_cols_def assign_cols_def)

lemma sheared_A:
  "dot_T [(2, 0, 0), (0, 2, 0), (0, 0, 2)] [(1, 0, 0), (1, 1, 0), (0, 0, 1)] =
     Inr ((2, 0, 0), (2, 2, 0), (0, 0, 2))"
  by (simp add: dot_T_def zeros33_def)

lemma sheared_B:
  "dot_T [(1, 0, 0), (1, 1, 0), (0, 0, 1)] [(1, 0, 0), (1, 1, 0), (0, 0, 1)] =
     Inr ((2, 1, 0), (1, 1, 0), (0, 0, 1))"
  by (simp add: dot_T_def zeros33_def)

lemma sheared_Ai:
  "linalg_inv lu ((2, 0, 0), (2, 2, 0), (0, 0, 2)) =
     Inr ((1/2, 0, 0), (-1/2, 1/2, 0), (0, 0, 1/2))"
  by (simp add: linalg_inv_def)

lemma sheared_q: "scatter_vec vox_sheared = [(2, 0, 0), (0, 2, 0), (0, 0, 2)]"
  by (simp add: vox_sheared_def)

lemma sheared_F:
  "deformation_gradientL2 lu vox_sheared = Inr ((1/2, 0, 0), (1/2, 1/2, 0), (0, 0, 1/2))"
  by (simp add: deformation_gradientL2_def sheared_q0 sheared_q sheared_A sheared_B sheared_Ai)

text \<open>
  C2 (as amended). Let \<open>q0\<close> be the strain-free vectors with \<^verbatim>\<open>match_measured=True\<close>,
  \<open>A = q . q0\<^sup>t\<close> and \<open>B = q0 . q0\<^sup>t\<close>. When \<open>A\<close> is invertible the closed-form solver
  returns \<open>F = (B . A\<^sup>-\<^sup>1)\<^sup>t\<close>, that is \<open>(A\<^sup>-\<^sup>1)\<^sup>t . B\<^sup>t\<close> as line 191 computes it, where
  \<open>A\<^sup>-\<^sup>1\<close> is the two-sided inverse of \<open>A\<close>.
\<close>

theorem deformation_gradientL2_formula:
  assumes q0: "scatter_vec0 self True = Inr q0"
    and A: "dot_T (scatter_vec self) q0 = Inr A"
    and B: "dot_T q0 q0 = Inr B"
    and det: "det3 A \<noteq> 0"
  shows "\<exists>Ai. linalg_inv lu A = Inr Ai \<and> mm Ai A = eye3 \<and> mm A Ai = eye3 \<and>
              deformation_gradientL2 lu self = Inr (transpose3 (mm B Ai))"
proof -
  let ?Ai = "mscale (1 / det3 A) (adj3 A)"
  have inv: "linalg_inv lu A = Inr ?Ai"
    using det by (rule linalg_inv_nonsingular)
  have "deformation_gradientL2 lu self = Inr (mm (transpose3 ?Ai) (transpose3 B))"
    by (simp add: deformation_gradientL2_def q0 A B inv)
  then have "deformation_gradientL2 lu self = Inr (transpose3 (mm B ?Ai))"
    by (simp add: transpose3_mm)
  with inv linalg_inv_left [OF det inv] linalg_inv_right [OF det inv] show ?thesis
    by blast
qed

theorem deformation_gradientL2_formula_witness:
  "scatter_vec0 vox_sheared True = Inr [(1, 0, 0), (1, 1, 0), (0, 0, 1)] \<and>
   dot_T (scatter_vec vox_sheared) [(1, 0, 0), (1, 1, 0), (0, 0, 1)] =
     Inr ((2, 0, 0), (2, 2, 0), (0, 0, 2)) \<and>
   dot_T [(1, 0, 0), (1, 1, 0), (0, 0, 1)] [(1, 0, 0), (1, 1, 0), (0, 0, 1)] =
     Inr ((2, 1, 0), (1, 1, 0), (0, 0, 1)) \<and>
   det3 ((2, 0, 0), (2, 2, 0), (0, 0, 2)) \<noteq> 0 \<and>
   deformation_gradientL2 zero_pivot vox_sheared =
     Inr (transpose3 (mm ((2, 1, 0), (1, 1, 0), (0, 0, 1))
                         ((1/2, 0, 0), (-1/2, 1/2, 0), (0, 0, 1/2))))"
proof -
  have A: "dot_T (scatter_vec vox_sheared) [(1, 0, 0), (1, 1, 0), (0, 0, 1)] =
     Inr ((2, 0, 0), (2, 2, 0), (0, 0, 2))"
    by (simp add: sheared_q sheared_A)
  have det: "det3 ((2, 0, 0), (2, 2, 0), (0, 0, 2)) \<noteq> 0"
    by simp
  from deformation_gradientL2_formula [OF sheared_q0 A sheared_B det, of zero_pivot]
  have "deformation_gradientL2 zero_pivot vox_sheared =
     Inr (transpose3 (mm ((2, 1, 0), (1, 1, 0), (0, 0, 1))
                         ((1/2, 0, 0), (-1/2, 1/2, 0), (0, 0, 1/2))))"
    by (auto simp: sheared_Ai)
  with sheared_q0 A sheared_B det show ?thesis by blast
qed

text \<open>
  C2 as stated fails: for \<open>vox_sheared\<close> the matrix \<open>A\<close> is invertible and the solver
  returns \<open>((1/2, 0, 0), (1/2, 1/2, 0), (0, 0, 1/2))\<close>, which is not \<open>(A\<^sup>-\<^sup>1 . B)\<^sup>t\<close>.
\<close>

theorem deformation_gradientL2_not_AinvB:
  "scatter_vec0 vox_sheared True = Inr [(1, 0, 0), (1, 1, 0), (0, 0, 1)] \<and>
   dot_T (scatter_vec vox_sheared) [(1, 0, 0), (1, 1, 0), (0, 0, 1)] =
     Inr ((2, 0, 0), (2, 2, 0), (0, 0, 2)) \<and>
   dot_T [(1, 0, 0), (1, 1, 0), (0, 0, 1)] [(1, 0, 0), (1, 1, 0), (0, 0, 1)] =
     Inr ((2, 1, 0), (1, 1, 0), (0, 0, 1)) \<and>
   linalg_inv zero_pivot ((2, 0, 0), (2, 2, 0), (0, 0, 2)) =
     Inr ((1/2, 0, 0), (-1/2, 1/2, 0), (0, 0, 1/2)) \<and>
   deformation_gradientL2 zero_pivot vox_sheared = Inr ((1/2, 0, 0), (1/2, 1/2, 0), (0, 0, 1/2)) \<and>
   deformation_gradientL2 zero_pivot vox_sheared \<noteq>
     Inr (transpose3 (mm ((1/2, 0, 0), (-1/2, 1/2, 0), (0, 0, 1/2))
                         ((2, 1, 0), (1, 1, 0), (0, 0, 1))))"
  by (simp add: sheared_q0 sheared_q sheared_A sheared_B sheared_Ai sheared_F)

lemma scatter_vec0_length:
  "scatter_vec0 self b = Inr q0 \<Longrightarrow> length q0 = length (plane self)"
  by (auto simp: scatter_vec0_def Let_def assign_cols_length mcols_def split: if_splits sum.splits)

lemma two_q0: "scatter_vec0 vox_two True = Inr [(1, 0, 0), (0, 1, 0)]"
  by (simp add: scatter_vec0_def vox_two_def where_unit_def upt_rec mcols_def eye3_def
      take_cols_def assign_cols_def)

lemma two_A:
  "dot_T (scatter_vec vox_two) [(1, 0, 0), (0, 1, 0)] = Inr ((2, 0, 0), (0, 2, 0), (0, 0, 0))"
  by (simp add: dot_T_def zeros33_def vox_two_def)

lemma two_B:
  "dot_T [(1, 0, 0), (0, 1, 0)] [(1, 0, 0), (0, 1, 0)] = Inr ((1, 0, 0), (0, 1, 0), (0, 0, 0))"
  by (simp add: dot_T_def zeros33_def)

lemma dependent_q0: "scatter_vec0 vox_dependent True = Inr [(1, 0, 1), (0, 1, 1), (3, 2, 5)]"
  by (simp add: scatter_vec0_def vox_dependent_def where_unit_def upt_rec mcols_def eye3_def
      take_cols_def assign_cols_def)

lemma dependent_A:
  "dot_T (scatter_vec vox_dependent) [(1, 0, 1), (0, 1, 1), (3, 2, 5)] = Inr A_dependent"
  by (simp add: dot_T_def zeros33_def vox_dependent_def A_dependent_def)

lemma dependent_B:
  "dot_T [(1, 0, 1), (0, 1, 1), (3, 2, 5)] [(1, 0, 1), (0, 1, 1), (3, 2, 5)] =
     Inr ((10, 6, 16), (6, 5, 11), (16, 11, 27))"
  by (simp add: dot_T_def zeros33_def)

lemma det3_A_dependent: "det3 A_dependent = 0"
  by (simp add: A_dependent_def)

text \<open>
  C9 (as amended). The closed-form solver has no singularity check of its own. When the
  matrix \<open>A = q . q0\<^sup>t\<close> is singular the solver does what \<^verbatim>\<open>np.linalg.inv\<close> does on
  \<open>A\<close>: it fails with \<^verbatim>\<open>LinAlgError\<close> when \<^verbatim>\<open>np.linalg.inv\<close> raises it, and when
  \<^verbatim>\<open>np.linalg.inv\<close> returns a matrix \<open>G\<close> it returns \<open>G\<^sup>t . B\<^sup>t\<close>. With fewer than three
  columns, as many measured as planes, \<open>A\<close> is always singular.
\<close>

theorem deformation_gradientL2_singular_outcome:
  "(scatter_vec0 self True = Inr q0 \<and> dot_T (scatter_vec self) q0 = Inr A \<and>
    dot_T q0 q0 = Inr B \<and> det3 A = 0
      \<longrightarrow> deformation_gradientL2 lu self =
            (case lu A of Inl e \<Rightarrow> Inl e | Inr G \<Rightarrow> Inr (mm (transpose3 G) (transpose3 B)))) \<and>
   (length (scatter_vec self) = length (plane self) \<and> length (scatter_vec self) < 3
      \<longrightarrow> (\<exists>q0' A'. scatter_vec0 self True = Inr q0' \<and>
                    dot_T (scatter_vec self) q0' = Inr A' \<and> det3 A' = 0))"
proof (intro conjI impI)
  assume h: "scatter_vec0 self True = Inr q0 \<and> dot_T (scatter_vec self) q0 = Inr A \<and>
    dot_T q0 q0 = Inr B \<and> det3 A = 0"
  then have "linalg_inv lu A = lu A"
    by (simp add: linalg_inv_singular)
  with h show "deformation_gradientL2 lu self =
            (case lu A of Inl e \<Rightarrow> Inl e | Inr G \<Rightarrow> Inr (mm (transpose3 G) (transpose3 B)))"
    by (simp add: deformation_gradientL2_def)
next
  assume h: "length (scatter_vec self) = length (plane self) \<and> length (scatter_vec self) < 3"
  then obtain q0' where q0: "scatter_vec0 self True = Inr q0'"
    using scatter_vec0_matched [of self] by simp
  then have len: "length q0' = length (scatter_vec self)"
    using h by (simp add: scatter_vec0_length)
  let ?A = "foldr madd (map2 outer (scatter_vec self) q0') zeros33"
  have A: "dot_T (scatter_vec self) q0' = Inr ?A"
    by (simp add: dot_T_def len)
  have "det3 ?A = 0"
    using len h by (intro det3_outer_sum_short) simp_all
  with q0 A show "\<exists>q0' A'. scatter_vec0 self True = Inr q0' \<and>
                    dot_T (scatter_vec self) q0' = Inr A' \<and> det3 A' = 0"
    by blast
qed

theorem deformation_gradientL2_singular_outcome_witness:
  "scatter_vec0 vox_two True = Inr [(1, 0, 0), (0, 1, 0)] \<and>
   dot_T (scatter_vec vox_two) [(1, 0, 0), (0, 1, 0)] = Inr ((2, 0, 0), (0, 2, 0), (0, 0, 0)) \<and>
   dot_T [(1, 0, 0), (0, 1, 0)] [(1, 0, 0), (0, 1, 0)] = Inr ((1, 0, 0), (0, 1, 0), (0, 0, 0)) \<and>
   det3 ((2, 0, 0), (0, 2, 0), (0, 0, 0)) = 0 \<and>
   deformation_gradientL2 zero_pivot vox_two = Inl LinAlgError \<and>
   length (scatter_vec vox_two) = length (plane vox_two) \<and> length (scatter_vec vox_two) < 3 \<and>
   (\<exists>q0' A'. scatter_vec0 vox_two True = Inr q0' \<and>
             dot_T (scatter_vec vox_two) q0' = Inr A' \<and> det3 A' = 0)"
proof -
  have d: "det3 ((2, 0, 0), (0, 2, 0), (0, 0, 0)) = 0"
    by simp
  have l: "length (scatter_vec vox_two) = length (plane vox_two) \<and> length (scatter_vec vox_two) < 3"
    by (simp add: vox_two_def)
  note inst = deformation_gradientL2_singular_outcome
         [of vox_two "[(1, 0, 0), (0, 1, 0)]" "((2, 0, 0), (0, 2, 0), (0, 0, 0))"
             "((1, 0, 0), (0, 1, 0), (0, 0, 0))" zero_pivot]
  from inst two_q0 two_A two_B d
  have "deformation_gradientL2 zero_pivot vox_two =
          (case zero_pivot ((2, 0, 0), (0, 2, 0), (0, 0, 0)) of
             Inl e \<Rightarrow> Inl e
           | Inr G \<Rightarrow> Inr (mm (transpose3 G) (transpose3 ((1, 0, 0), (0, 1, 0), (0, 0, 0)))))"
    by blast
  then have 1: "deformation_gradientL2 zero_pivot vox_two = Inl LinAlgError"
    by (simp add: zero_pivot_def)
  from inst l
  have 2: "\<exists>q0' A'. scatter_vec0 vox_two True = Inr q0' \<and>
             dot_T (scatter_vec vox_two) q0' = Inr A' \<and> det3 A' = 0"
    by blast
  from two_q0 two_A two_B d 1 l 2 show ?thesis by blast
qed

text \<open>
  C9 as stated fails: the matrix \<open>A\<close> of \<open>vox_dependent\<close> is the singular
  \<open>A_dependent\<close>, on which float64 elimination meets no exactly zero pivot; the solver
  raises nothing and returns the degenerate matrix built from \<open>rounded_inverse\<close>.
\<close>

theorem deformation_gradientL2_singular_returns:
  "scatter_vec0 vox_dependent True = Inr [(1, 0, 1), (0, 1, 1), (3, 2, 5)] \<and>
   dot_T (scatter_vec vox_dependent) [(1, 0, 1), (0, 1, 1), (3, 2, 5)] = Inr A_dependent \<and>
   det3 A_dependent = 0 \<and>
   tiny_pivot A_dependent = Inr rounded_inverse \<and>
   deformation_gradientL2 tiny_pivot vox_dependent =
     Inr (mm (transpose3 rounded_inverse)
             (transpose3 ((10, 6, 16), (6, 5, 11), (16, 11, 27)))) \<and>
   deformation_gradientL2 tiny_pivot vox_dependent \<noteq> Inl LinAlgError"
proof -
  have t: "tiny_pivot A_dependent = Inr rounded_inverse"
    by (simp add: tiny_pivot_def)
  have "linalg_inv tiny_pivot A_dependent = Inr rounded_inverse"
    by (simp only: linalg_inv_singular [OF det3_A_dependent] t)
  then have "deformation_gradientL2 tiny_pivot vox_dependent =
     Inr (mm (transpose3 rounded_inverse)
             (transpose3 ((10, 6, 16), (6, 5, 11), (16, 11, 27))))"
    by (simp add: deformation_gradientL2_def dependent_q0 dependent_A dependent_B)
  with dependent_q0 dependent_A det3_A_dependent t show ?thesis
    by simp
qed

section \<open>Nonlinear deformation gradient\<close>

text \<open>
  C4 (as amended). The nonlinear strategy never looks at the optimizer's \<^verbatim>\<open>success\<close>
  flag: replacing the flag in whatever the optimizer returns does not change the outcome.
  Whenever the optimizer returns a parameter vector \<open>\<Delta>\<close> of nine numbers with
  \<open>I + \<Delta>\<close> invertible, the strategy returns \<open>F\<close> with \<open>F\<^sup>t\<close> the two-sided inverse of
  \<open>I + \<Delta>\<close>, that is \<open>F = (I + \<Delta>)\<^sup>-\<^sup>t\<close>, converged or not. An exception raised by the
  optimizer reaches the caller as it is.
\<close>

theorem deformation_gradient_opt_unchecked:
  "deformation_gradient_opt lu (with_success b minimize) self eps =
     deformation_gradient_opt lu minimize self eps \<and>
   (minimize (\<lambda>f. objectiveDante f (mcols (recip_base self) (plane self)) (scatter_vec self))
             (replicate 9 0) (\<lambda>x. constraint x eps) = Inr r \<and>
    reshape33 (res_x r) = Inr d \<and> det3 (madd eye3 d) \<noteq> 0
      \<longrightarrow> (\<exists>F. deformation_gradient_opt lu minimize self eps = Inr F \<and>
                mm (transpose3 F) (madd eye3 d) = eye3 \<and>
                mm (madd eye3 d) (transpose3 F) = eye3)) \<and>
   (minimize (\<lambda>f. objectiveDante f (mcols (recip_base self) (plane self)) (scatter_vec self))
             (replicate 9 0) (\<lambda>x. constraint x eps) = Inl e
      \<longrightarrow> deformation_gradient_opt lu minimize self eps = Inl e)"
proof (intro conjI impI)
  show "deformation_gradient_opt lu (with_success b minimize) self eps =
     deformation_gradient_opt lu minimize self eps"
    by (simp add: deformation_gradient_opt_def with_success_def scatter_vec0_def
        split: sum.splits)
next
  assume h: "minimize (\<lambda>f. objectiveDante f (mcols (recip_base self) (plane self)) (scatter_vec self))
             (replicate 9 0) (\<lambda>x. constraint x eps) = Inr r \<and>
    reshape33 (res_x r) = Inr d \<and> det3 (madd eye3 d) \<noteq> 0"
  let ?fi = "mscale (1 / det3 (madd eye3 d)) (adj3 (madd eye3 d))"
  have det: "det3 (madd eye3 d) \<noteq> 0"
    using h by simp
  have inv: "linalg_inv lu (madd eye3 d) = Inr ?fi"
    using h by (simp add: linalg_inv_nonsingular)
  have "deformation_gradient_opt lu minimize self eps = Inr (transpose3 ?fi)"
    using h inv by (simp add: deformation_gradient_opt_def scatter_vec0_def)
  moreover have "mm (transpose3 (transpose3 ?fi)) (madd eye3 d) = eye3"
    using linalg_inv_left [OF det inv] by (cases "(?fi)" rule: transpose3.cases) simp
  moreover have "mm (madd eye3 d) (transpose3 (transpose3 ?fi)) = eye3"
    using linalg_inv_right [OF det inv] by (cases "(?fi)" rule: transpose3.cases) simp
  ultimately show "\<exists>F. deformation_gradient_opt lu minimize self eps = Inr F \<and>
                mm (transpose3 F) (madd eye3 d) = eye3 \<and>
                mm (madd eye3 d) (transpose3 F) = eye3"
    by blast
next
  assume "minimize (\<lambda>f. objectiveDante f (mcols (recip_base self) (plane self)) (scatter_vec self))
             (replicate 9 0) (\<lambda>x. constraint x eps) = Inl e"
  then show "deformation_gradient_opt lu minimize self eps = Inl e"
    by (simp add: deformation_gradient_opt_def scatter_vec0_def)
qed

theorem deformation_gradient_opt_unchecked_witness:
  "minimize_unconverged
     (\<lambda>f. objectiveDante f (mcols (recip_base vox_sheared) (plane vox_sheared))
                          (scatter_vec vox_sheared))
     (replicate 9 0) (\<lambda>x. constraint x (1 / 10)) = Inr unconverged \<and>
   reshape33 (res_x unconverged) = Inr zeros33 \<and> det3 (madd eye3 zeros33) \<noteq> 0 \<and>
   (\<exists>F. deformation_gradient_opt zero_pivot minimize_unconverged vox_sheared (1 / 10) = Inr F \<and>
        mm (transpose3 F) (madd eye3 zeros33) = eye3) \<and>
   minimize_faulty
     (\<lambda>f. objectiveDante f (mcols (recip_base vox_sheared) (plane vox_sheared))
                          (scatter_vec vox_sheared))
     (replicate 9 0) (\<lambda>x. constraint x (1 / 10)) = Inl OptimizerFault \<and>
   deformation_gradient_opt zero_pivot minimize_faulty vox_sheared (1 / 10) = Inl OptimizerFault"
proof -
  have m: "minimize_unconverged
     (\<lambda>f. objectiveDante f (mcols (recip_base vox_sheared) (plane vox_sheared))
                          (scatter_vec vox_sheared))
     (replicate 9 0) (\<lambda>x. constraint x (1 / 10)) = Inr unconverged"
    by (simp add: minimize_unconverged_def)
  have r: "reshape33 (res_x unconverged) = Inr zeros33"
    by (simp add: unconverged_def zeros33_def)
  have d: "det3 (madd eye3 zeros33) \<noteq> 0"
    by (simp add: eye3_def zeros33_def)
  have f: "minimize_faulty
     (\<lambda>f. objectiveDante f (mcols (recip_base vox_sheared) (plane vox_sheared))
                          (scatter_vec vox_sheared))
     (replicate 9 0) (\<lambda>x. constraint x (1 / 10)) = Inl OptimizerFault"
    by (simp add: minimize_faulty_def)
  from deformation_gradient_opt_unchecked
         [of zero_pivot True minimize_unconverged vox_sheared "1 / 10" unconverged zeros33
            Exception]
       m r d
  have 1: "\<exists>F. deformation_gradient_opt zero_pivot minimize_unconverged vox_sheared (1 / 10) = Inr F \<and>
        mm (transpose3 F) (madd eye3 zeros33) = eye3"
    by blast
  from deformation_gradient_opt_unchecked
         [of zero_pivot True minimize_faulty vox_sheared "1 / 10" unconverged zeros33
            OptimizerFault] f
  have 2: "deformation_gradient_opt zero_pivot minimize_faulty vox_sheared (1 / 10) = Inl OptimizerFault"
    by blast
  from m r d 1 f 2 show ?thesis by blast
qed

text \<open>
  C4 as stated fails: an optimizer that stops at the start vector and reports
  \<^verbatim>\<open>success = False\<close> makes the strategy return the identity matrix, not an error.
\<close>

theorem deformation_gradient_opt_returns_unconverged:
  "\<not> res_success unconverged \<and>
   deformation_gradient_opt zero_pivot minimize_unconverged vox_sheared (1 / 10) = Inr eye3"
  by (simp add: deformation_gradient_opt_def minimize_unconverged_def unconverged_def
      scatter_vec0_def linalg_inv_def eye3_def)

section \<open>Pairing measured vectors with planes\<close>

lemma argmin_aux_least:
  assumes "length pre = i" and "bi < i" and "pre ! bi = bv" and "\<forall>j<i. bv \<le> pre ! j"
  shows "argmin_aux bi bv i ys < length (pre @ ys) \<and>
         (\<forall>j<length (pre @ ys). (pre @ ys) ! argmin_aux bi bv i ys \<le> (pre @ ys) ! j)"
  using assms
proof (induction ys arbitrary: bi bv i pre)
  case Nil
  then show ?case by simp
next
  case (Cons y ys)
  show ?case
  proof (cases "y < bv")
    case True
    have "argmin_aux i y (Suc i) ys < length ((pre @ [y]) @ ys) \<and>
         (\<forall>j<length ((pre @ [y]) @ ys). ((pre @ [y]) @ ys) ! argmin_aux i y (Suc i) ys \<le> ((pre @ [y]) @ ys) ! j)"
    proof (rule Cons.IH)
      show "length (pre @ [y]) = Suc i" using Cons.prems by simp
      show "i < Suc i" by simp
      show "(pre @ [y]) ! i = y" using Cons.prems(1) by (simp add: nth_append)
      show "\<forall>j<Suc i. y \<le> (pre @ [y]) ! j"
        using Cons.prems True by (auto simp: nth_append less_Suc_eq)
    qed
    with True show ?thesis by simp
  next
    case False
    have "argmin_aux bi bv (Suc i) ys < length ((pre @ [y]) @ ys) \<and>
         (\<forall>j<length ((pre @ [y]) @ ys). ((pre @ [y]) @ ys) ! argmin_aux bi bv (Suc i) ys \<le> ((pre @ [y]) @ ys) ! j)"
    proof (rule Cons.IH)
      show "length (pre @ [y]) = Suc i" using Cons.prems by simp
      show "bi < Suc i" using Cons.prems by simp
      show "(pre @ [y]) ! bi = bv" using Cons.prems by (simp add: nth_append)
      show "\<forall>j<Suc i. bv \<le> (pre @ [y]) ! j"
        using Cons.prems False by (auto simp: nth_append less_Suc_eq)
    qed
    with False show ?thesis by simp
  qed
qed

text \<open>\<open>argmin\<close> returns an index of a least entry.\<close>

lemma argmin_least:
  assumes "argmin xs = Inr k"
  shows "k < length xs \<and> (\<forall>j<length xs. xs ! k \<le> xs ! j)"
proof (cases xs)
  case Nil
  with assms show ?thesis by simp
next
  case (Cons y ys)
  with assms have k: "k = argmin_aux 0 y 1 ys" by simp
  have "argmin_aux 0 y 1 ys < length ([y] @ ys) \<and>
         (\<forall>j<length ([y] @ ys). ([y] @ ys) ! argmin_aux 0 y 1 ys \<le> ([y] @ ys) ! j)"
    by (rule argmin_aux_least) simp_all
  with k Cons show ?thesis by simp
qed

text \<open>
  What the loop does: position \<open>i\<close> of the output receives the measured vector, and the
  peak of the same column, whose normalized form has the least dot product with the
  theoretical unit direction of plane \<open>i\<close>: the least cosine, hence the largest angle.
\<close>

lemma pair_loop_least:
  assumes "pair_loop self qs ps = Inr (sv, pk)" and "i < length ps"
  shows "length sv = length ps \<and> length pk = length ps \<and>
         (\<exists>k<length qs. sv ! i = scatter_vec self ! k \<and> pk ! i = peak self ! k \<and>
            (\<forall>j<length qs.
               dotp (normalize_vec (mv (recip_base self) (ps ! i))) (qs ! k)
                 \<le> dotp (normalize_vec (mv (recip_base self) (ps ! i))) (qs ! j)))"
  using assms
proof (induction ps arbitrary: sv pk i)
  case Nil
  then show ?case by simp
next
  case (Cons p ps)
  let ?q0 = "normalize_vec (mv (recip_base self) p)"
  from Cons.prems(1) obtain idx sv' pk' where
    idx: "argmin (map (dotp ?q0) qs) = Inr idx"
    and rest: "pair_loop self qs ps = Inr (sv', pk')"
    and sv: "sv = scatter_vec self ! idx # sv'" and pk: "pk = peak self ! idx # pk'"
    by (auto simp: Let_def split: sum.splits if_splits)
  from argmin_least [OF idx] have idx_lt: "idx < length qs"
    and least: "\<forall>j<length qs. dotp ?q0 (qs ! idx) \<le> dotp ?q0 (qs ! j)"
    by auto
  show ?case
  proof (cases i)
    case 0
    have "length sv' = length ps \<and> length pk' = length ps"
    proof (cases ps)
      case Nil
      with rest show ?thesis by simp
    next
      case (Cons a list)
      then have "0 < length ps" by simp
      from Cons.IH [OF rest this] show ?thesis by simp
    qed
    with 0 sv pk idx_lt least show ?thesis by auto
  next
    case (Suc i')
    with Cons.prems(2) have "i' < length ps" by simp
    from Cons.IH [OF rest this] Suc sv pk show ?thesis by simp
  qed
qed

text \<open>
  C1 (the code departs from the claim). For \<open>vox_pair\<close> the theoretical direction of the
  only plane is \<open>(1, 0, 0)\<close>. The first measured vector is parallel to it (cosine 1) and
  the second opposite (cosine -1); the pairing assigns the second, with its peak
  \<open>(30, 40)\<close>: \<^verbatim>\<open>np.argmin\<close> of the cosines picks the largest angle, not the smallest.
\<close>

theorem pair_scattervec_plane_picks_opposite:
  "pair_scattervec_plane vox_pair =
     (vox_pair\<lparr>scatter_vec := [(- 1, 0, 0)], peak := [(30, 40)]\<rparr>, None) \<and>
   dotp (normalize_vec (mv (recip_base vox_pair) (plane vox_pair ! 0)))
        (normalize_vec (scatter_vec vox_pair ! 0)) = 1 \<and>
   dotp (normalize_vec (mv (recip_base vox_pair) (plane vox_pair ! 0)))
        (normalize_vec (scatter_vec vox_pair ! 1)) = - 1"
  by (simp add: pair_scattervec_plane_def vox_pair_def normalize_vec_def eye3_def)

end
